theory Spec2Isabelle
  imports Main
begin

section \<open>The quiz component of \<open>src/src/pages/AddWord.tsx\<close> (second document, \<open>Quiz\<close>)\<close>

subsection \<open>Data\<close>

text \<open>
  The interfaces \<open>QuizQuestion\<close>, \<open>QuizResponse\<close> and \<open>QuizResult\<close> of the source.
  The fields of \<open>QuizResult\<close> that share a name with a field of \<open>QuizQuestion\<close> carry
  the prefix \<open>r_\<close>; \<open>type\<close> is \<open>qtype\<close>.
\<close>

datatype QuestionType = Meaning | Synonyms | Antonyms | FillBlank

datatype QuizType = QMeaning | QSynonyms | QAntonyms | QFillBlank | QMixed

datatype StatusFilter = All | Learning | Reviewing | Mastered

record QuizQuestion =
  wordId :: string
  word :: string
  question :: string
  options :: "string list"
  correctAnswer :: string
  qtype :: QuestionType

record QuizResponse =
  questions :: "QuizQuestion list"
  totalQuestions :: int
  resp_quizType :: string

text \<open>
  \<open>selectedAnswers\<close> is a plain object, and the component reads it with
  \<open>selectedAnswers[key]\<close>. Such a read gives the recorded string when the object has
  the key, and otherwise what the object inherits under that name from
  \<open>Object.prototype\<close>: a function (for \<open>__proto__\<close> the prototype itself) when the key
  is the name of one of its members, and \<open>undefined\<close> for any other key. \<open>Member k\<close>
  is the inherited value of the name \<open>k\<close>. The field \<open>selectedAnswer\<close> of a result is
  declared a string and holds what such a read gave.
\<close>

datatype JSValue = Undefined | Str string | Member string

record QuizResult =
  r_wordId :: string
  selectedAnswer :: JSValue
  correct :: bool
  r_correctAnswer :: string
  r_word :: string
  r_question :: string

text \<open>
  What the component reads of a failed request: \<open>axiosError?.response?.data?.error\<close>
  and \<open>axiosError?.response?.status\<close>.
\<close>

record AxiosError =
  resp_error :: "string option"
  resp_status :: "int option"

datatype toast = ToastSuccess string | ToastError string

text \<open>
  The state of the component: the three configuration values, the seven other \<open>useState\<close>
  values, the two values \<open>data\<close> (named \<open>quizData\<close>) and \<open>error\<close> that \<open>useQuery\<close>
  hands to the component, and a log of the effects on the outside: the arguments of the
  calls of \<open>submitResultsMutation.mutate\<close>, the toasts, the \<open>axios.put\<close> requests
  (word identifier and status sent) and the calls of \<open>invalidateQueries\<close>, each in
  the order of the calls. \<open>pending\<close> counts the calls of \<open>startQuiz\<close> that wait at
  \<open>await refetch()\<close>.
\<close>

record Quiz =
  quizType :: QuizType
  questionCount :: int
  status :: StatusFilter
  currentQuestionIndex :: int
  selectedAnswers :: "string \<rightharpoonup> string"
  showResults :: bool
  quizStarted :: bool
  timeLeft :: int
  timerActive :: bool
  quizResults :: "QuizResult list"
  quizData :: "QuizResponse option"
  error :: "AxiosError option"
  submitted :: "QuizResult list list"
  toasts :: "toast list"
  putRequests :: "(string \<times> string) list"
  invalidated :: "string list"
  pending :: nat

text \<open>The state at mount: the initial values of the \<open>useState\<close> calls, no data, no error.\<close>

definition mount :: Quiz where
  "mount = \<lparr>quizType = QMeaning, questionCount = 10, status = All,
     currentQuestionIndex = 0, selectedAnswers = Map.empty, showResults = False,
     quizStarted = False, timeLeft = 0, timerActive = False, quizResults = [],
     quizData = None, error = None, submitted = [], toasts = [], putRequests = [],
     invalidated = [], pending = 0\<rparr>"

subsection \<open>JavaScript expressions\<close>

text \<open>
  \<open>x || d\<close> on a string that may be undefined: \<open>undefined\<close> and the empty string are
  falsy.
\<close>

definition or_else :: "string option \<Rightarrow> string \<Rightarrow> string" where
  "or_else x d = (case x of None \<Rightarrow> d | Some v \<Rightarrow> if v = [] then d else v)"

text \<open>
  The names of the members of \<open>Object.prototype\<close>, and \<open>obj[key]\<close> on an object whose
  own keys and values are those of the map \<open>obj\<close>.
\<close>

definition object_prototype_members :: "string list" where
  "object_prototype_members =
     [''constructor'', ''__defineGetter__'', ''__defineSetter__'', ''hasOwnProperty'',
      ''__lookupGetter__'', ''__lookupSetter__'', ''isPrototypeOf'', ''propertyIsEnumerable'',
      ''toString'', ''valueOf'', ''__proto__'', ''toLocaleString'']"

definition object_get :: "(string \<rightharpoonup> string) \<Rightarrow> string \<Rightarrow> JSValue" where
  "object_get obj key =
     (case obj key of
        Some v \<Rightarrow> Str v
      | None \<Rightarrow> if key \<in> set object_prototype_members then Member key else Undefined)"

text \<open>
  A value as a condition (\<open>undefined\<close> and the empty string are falsy, a function or an
  object is truthy), and \<open>x || d\<close> for a string \<open>d\<close>.
\<close>

fun truthy :: "JSValue \<Rightarrow> bool" where
  "truthy Undefined = False"
| "truthy (Str v) = (v \<noteq> [])"
| "truthy (Member k) = True"

definition or_default :: "JSValue \<Rightarrow> string \<Rightarrow> JSValue" where
  "or_default x d = (if truthy x then x else Str d)"

text \<open>\<open>xs[i]\<close>: undefined outside the array.\<close>

definition at_index :: "'a list \<Rightarrow> int \<Rightarrow> 'a option" where
  "at_index xs i = (if 0 \<le> i \<and> i < int (length xs) then Some (xs ! nat i) else None)"

text \<open>The decimal numeral of a length, as a template literal prints it.\<close>

definition digit :: "nat \<Rightarrow> char" where
  "digit d = (''0123456789'' ! d)"

function show_nat :: "nat \<Rightarrow> string" where
  "show_nat n = (if n < 10 then [digit n] else show_nat (n div 10) @ [digit (n mod 10)])"
  by pat_completeness auto
termination
  by (relation "measure id") auto

subsection \<open>The handlers\<close>

text \<open>
  A handler is created anew by every render. What it reads of the state by name
  (\<open>quizData\<close>, \<open>selectedAnswers\<close>, \<open>currentQuestionIndex\<close>, \<open>quizResults\<close>) are the
  values of that render; what it writes goes to the current state. A handler therefore
  takes two states: \<open>r\<close>, the state at the render it belongs to, and \<open>s\<close>, the
  state it updates. A handler called by a click belongs to the latest render, so
  there \<open>r = s\<close>; the interval callback of the timer belongs to the render at which
  the effect last ran.
\<close>

text \<open>
  \<open>result_of\<close> is the function mapped over the questions in \<open>handleFinishQuiz\<close>. The
  answer of the scoring service to \<open>mutate\<close> arrives later and writes nothing that
  the handlers read; it is not modelled.
\<close>

definition result_of :: "(string \<rightharpoonup> string) \<Rightarrow> QuizQuestion \<Rightarrow> QuizResult" where
  "result_of answers q =
     \<lparr>r_wordId = wordId q,
      selectedAnswer = or_default (object_get answers (wordId q)) [],
      correct = (object_get answers (wordId q) = Str (correctAnswer q)),
      r_correctAnswer = correctAnswer q,
      r_word = word q,
      r_question = question q\<rparr>"

definition handleFinishQuiz :: "Quiz \<Rightarrow> Quiz \<Rightarrow> Quiz" where
  "handleFinishQuiz r s =
     (let s1 = s\<lparr>timerActive := False\<rparr> in
      case quizData r of
        None \<Rightarrow> s1
      | Some d \<Rightarrow>
          (let results = map (result_of (selectedAnswers r)) (questions d) in
           s1\<lparr>quizResults := results,
              submitted := submitted s1 @ [results],
              showResults := True\<rparr>))"

definition handleAnswerSelect :: "string \<Rightarrow> string \<Rightarrow> Quiz \<Rightarrow> Quiz" where
  "handleAnswerSelect questionId answer s =
     s\<lparr>selectedAnswers := (selectedAnswers s)(questionId \<mapsto> answer)\<rparr>"

text \<open>\<open>quizData?.questions.length || 0\<close>\<close>

definition questions_length :: "Quiz \<Rightarrow> int" where
  "questions_length r = (case quizData r of None \<Rightarrow> 0 | Some d \<Rightarrow> int (length (questions d)))"

definition handleNextQuestion :: "Quiz \<Rightarrow> Quiz \<Rightarrow> Quiz" where
  "handleNextQuestion r s =
     (if currentQuestionIndex r < questions_length r - 1
      then s\<lparr>currentQuestionIndex := currentQuestionIndex s + 1\<rparr>
      else handleFinishQuiz r s)"

definition handlePreviousQuestion :: "Quiz \<Rightarrow> Quiz \<Rightarrow> Quiz" where
  "handlePreviousQuestion r s =
     (if currentQuestionIndex r > 0
      then s\<lparr>currentQuestionIndex := currentQuestionIndex s - 1\<rparr>
      else s)"

definition resetQuiz :: "Quiz \<Rightarrow> Quiz" where
  "resetQuiz s =
     s\<lparr>quizStarted := False,
       currentQuestionIndex := 0,
       selectedAnswers := Map.empty,
       showResults := False,
       timeLeft := 0,
       timerActive := False,
       quizResults := []\<rparr>"

text \<open>
  The timer. The effect depends on \<open>timerActive\<close> and \<open>timeLeft\<close>: an interval exists
  exactly while \<open>timerActive && timeLeft > 0\<close>, and it is replaced whenever one of the
  two changes. A tick is one call of the interval callback; \<open>r\<close> is the render that
  created the callback.
\<close>

definition timerTick :: "Quiz \<Rightarrow> Quiz \<Rightarrow> Quiz" where
  "timerTick r s =
     (if timerActive s \<and> timeLeft s > 0
      then (if timeLeft s \<le> 1
            then (handleFinishQuiz r (s\<lparr>timerActive := False\<rparr>))\<lparr>timeLeft := 0\<rparr>
            else s\<lparr>timeLeft := timeLeft s - 1\<rparr>)
      else s)"

text \<open>
  A tick when nothing has happened since the tick before: the callback was made by the
  render of the state it updates.
\<close>

definition tick_fresh :: "Quiz \<Rightarrow> Quiz" where
  "tick_fresh s = timerTick s s"

text \<open>
  \<open>startQuiz\<close> from \<open>await refetch()\<close> on: the promise either resolves with a result
  whose \<open>data\<close> may be undefined, or rejects. The check \<open>result.data.questions &&\<close> is
  always passed by a value of the type \<open>QuizResponse\<close>. (\<open>console.error\<close> is left out.)
\<close>

datatype RefetchResult = Resolved "QuizResponse option" | Rejected AxiosError

definition startQuiz :: "RefetchResult \<Rightarrow> Quiz \<Rightarrow> Quiz" where
  "startQuiz result s =
     (case result of
        Resolved data \<Rightarrow>
          (case data of
             Some d \<Rightarrow>
               if length (questions d) > 0
               then s\<lparr>quizStarted := True,
                      currentQuestionIndex := 0,
                      selectedAnswers := Map.empty,
                      showResults := False,
                      timeLeft := int (length (questions d)) * 30,
                      timerActive := True\<rparr>
               else s\<lparr>toasts := toasts s @
                      [ToastError ''No questions available for the selected criteria'']\<rparr>
           | None \<Rightarrow>
               s\<lparr>toasts := toasts s @
                 [ToastError ''No questions available for the selected criteria'']\<rparr>)
      | Rejected e \<Rightarrow>
          s\<lparr>toasts := toasts s @
            [ToastError (or_else (resp_error e) ''Failed to start quiz'')]\<rparr>)"

text \<open>
  The library \<open>react-query\<close> is not part of the repository. Its part in a fetch is
  taken as given: a call of \<open>refetch\<close> starts a fetch, and when the fetch settles
  \<open>useQuery\<close> shows the component the data and the error of the result that \<open>refetch\<close>
  resolves with. \<open>Settled data err\<close> is a fetch after which \<open>refetch\<close> resolves with a
  result holding \<open>data\<close> and \<open>err\<close> (a response, or a failure: \<open>refetch\<close> resolves
  after a failure unless it is asked to throw); \<open>Thrown e\<close> is a failure after which it
  rejects.

  \<open>startQuiz_call\<close> is \<open>startQuiz\<close> up to \<open>await refetch()\<close>: nothing of the component
  changes, one more call waits for its fetch. \<open>fetch_settled\<close> is the end of one such
  wait: the values of \<open>useQuery\<close> change and the rest of \<open>startQuiz\<close> runs, on the state
  as it is by then. (Calls made while a fetch is under way may share that fetch; their
  waits then end together. No theorem below rests on two calls waiting at once.)
\<close>

datatype FetchOutcome = Settled "QuizResponse option" "AxiosError option" | Thrown AxiosError

definition startQuiz_call :: "Quiz \<Rightarrow> Quiz" where
  "startQuiz_call s = s\<lparr>pending := pending s + 1\<rparr>"

definition fetch_settled :: "FetchOutcome \<Rightarrow> Quiz \<Rightarrow> Quiz" where
  "fetch_settled out s =
     (if pending s = 0 then s
      else (case out of
              Settled data err \<Rightarrow>
                startQuiz (Resolved data)
                  (s\<lparr>pending := pending s - 1, quizData := data, error := err\<rparr>)
            | Thrown e \<Rightarrow>
                startQuiz (Rejected e) (s\<lparr>pending := pending s - 1, error := Some e\<rparr>)))"

text \<open>
  \<open>markWordsForReview\<close>. All requests are created by the \<open>map\<close> before \<open>Promise.all\<close>
  waits; \<open>put_ok i\<close> says whether request number \<open>i\<close> succeeds. \<open>Promise.all\<close> rejects
  when one of them fails.
\<close>

definition markWordsForReview :: "(nat \<Rightarrow> bool) \<Rightarrow> Quiz \<Rightarrow> Quiz \<Rightarrow> Quiz" where
  "markWordsForReview put_ok r s =
     (let incorrectWords = map r_wordId (filter (\<lambda>result. \<not> correct result) (quizResults r)) in
      if length incorrectWords = 0
      then s\<lparr>toasts := toasts s @ [ToastSuccess ''No words to mark for review!'']\<rparr>
      else
        (let s1 = s\<lparr>putRequests := putRequests s @
                     map (\<lambda>wordId. (wordId, ''reviewing'')) incorrectWords\<rparr> in
         if list_all put_ok [0 ..< length incorrectWords]
         then s1\<lparr>toasts := toasts s1 @
                   [ToastSuccess (show_nat (length incorrectWords) @ '' words marked for review!'')],
                 invalidated := invalidated s1 @ [''vocabulary'', ''vocabularyStats'']\<rparr>
         else s1\<lparr>toasts := toasts s1 @ [ToastError ''Failed to mark words for review'']\<rparr>))"

subsection \<open>What is rendered\<close>

text \<open>
  The four returns of the component, in their order: the error view (heading and
  message), the configuration view, the spinner, and the question view, which holds
  the results modal when \<open>showResults\<close> is set.
\<close>

datatype Screen = ErrorView string string | ConfigView | SpinnerView | QuestionView bool

definition currentQuestion :: "Quiz \<Rightarrow> QuizQuestion option" where
  "currentQuestion s =
     (case quizData s of None \<Rightarrow> None | Some d \<Rightarrow> at_index (questions d) (currentQuestionIndex s))"

definition screen :: "Quiz \<Rightarrow> Screen" where
  "screen s =
     (case error s of
        Some e \<Rightarrow>
          (if resp_status e = Some 404
           then ErrorView ''No words available for quiz''
                  ''You need to add some vocabulary words before you can take a quiz.''
           else ErrorView ''Error loading quiz'' (or_else (resp_error e) ''Failed to load quiz''))
      | None \<Rightarrow>
          if \<not> quizStarted s then ConfigView
          else (case currentQuestion s of
                  None \<Rightarrow> SpinnerView
                | Some q \<Rightarrow> QuestionView (showResults s)))"

text \<open>
  The buttons of the question view. \<open>hasAnswered\<close> is
  \<open>selectedAnswers[currentQuestion.wordId]\<close> as a condition; the Next button has
  \<open>disabled={!hasAnswered || isLastQuestion}\<close>, the Previous button
  \<open>disabled={currentQuestionIndex === 0}\<close>, the others are never disabled. A click
  on a button that is not rendered or is disabled does nothing.
\<close>

definition isLastQuestion :: "Quiz \<Rightarrow> bool" where
  "isLastQuestion s = (currentQuestionIndex s = questions_length s - 1)"

definition hasAnswered :: "Quiz \<Rightarrow> bool" where
  "hasAnswered s =
     (case currentQuestion s of
        None \<Rightarrow> False
      | Some q \<Rightarrow> truthy (object_get (selectedAnswers s) (wordId q)))"

definition in_question_view :: "Quiz \<Rightarrow> bool" where
  "in_question_view s = (case screen s of QuestionView m \<Rightarrow> True | _ \<Rightarrow> False)"

definition click_next :: "Quiz \<Rightarrow> Quiz" where
  "click_next s =
     (if in_question_view s \<and> \<not> (\<not> hasAnswered s \<or> isLastQuestion s)
      then handleNextQuestion s s else s)"

definition click_previous :: "Quiz \<Rightarrow> Quiz" where
  "click_previous s =
     (if in_question_view s \<and> \<not> (currentQuestionIndex s = 0)
      then handlePreviousQuestion s s else s)"

text \<open>
  The Start button of the configuration view has \<open>disabled={isLoading}\<close>. \<open>isLoading\<close>
  is a value of \<open>useQuery\<close>: a fetch is under way and no data are there yet.
\<close>

definition isLoading :: "Quiz \<Rightarrow> bool" where
  "isLoading s = (0 < pending s \<and> quizData s = None)"

definition click_start :: "Quiz \<Rightarrow> Quiz" where
  "click_start s = (if screen s = ConfigView \<and> \<not> isLoading s then startQuiz_call s else s)"

definition click_finish :: "Quiz \<Rightarrow> Quiz" where
  "click_finish s = (if in_question_view s then handleFinishQuiz s s else s)"

definition click_reset :: "Quiz \<Rightarrow> Quiz" where
  "click_reset s = (if in_question_view s then resetQuiz s else s)"

text \<open>The option buttons of the current question: button \<open>i\<close> selects option \<open>i\<close>.\<close>

definition click_option :: "nat \<Rightarrow> Quiz \<Rightarrow> Quiz" where
  "click_option i s =
     (if in_question_view s
      then (case currentQuestion s of
              None \<Rightarrow> s
            | Some q \<Rightarrow> if i < length (options q)
                        then handleAnswerSelect (wordId q) (options q ! i) s else s)
      else s)"

subsection \<open>Sequences of steps and sample sessions\<close>

text \<open>
  What a user does between start and finish: a list of answer selections and of calls
  of the two navigation handlers, each by a click (so each handler reads the state it
  updates).
\<close>

datatype Step = Select string string | Next | Previous

fun perform :: "Step list \<Rightarrow> Quiz \<Rightarrow> Quiz" where
  "perform [] s = s"
| "perform (Select w a # xs) s = perform xs (handleAnswerSelect w a s)"
| "perform (Next # xs) s = perform xs (handleNextQuestion s s)"
| "perform (Previous # xs) s = perform xs (handlePreviousQuestion s s)"

text \<open>
  The latest answer selected for the question \<open>w\<close> in a list of steps; \<open>cur\<close> is
  the answer recorded before the steps.
\<close>

fun latest_selection :: "string \<Rightarrow> Step list \<Rightarrow> string option \<Rightarrow> string option" where
  "latest_selection w [] cur = cur"
| "latest_selection w (Select w' a # xs) cur = latest_selection w xs (if w' = w then Some a else cur)"
| "latest_selection w (Next # xs) cur = latest_selection w xs cur"
| "latest_selection w (Previous # xs) cur = latest_selection w xs cur"

text \<open>Inputs on which the theorems below are run.\<close>

definition sample_question :: "string \<Rightarrow> QuizQuestion" where
  "sample_question w =
     \<lparr>wordId = w, word = ''brief'', question = ''What does it mean?'',
      options = [''short'', ''long''], correctAnswer = ''short'', qtype = Meaning\<rparr>"

definition sample_response :: "string list \<Rightarrow> QuizResponse" where
  "sample_response ws =
     \<lparr>questions = map sample_question ws, totalQuestions = int (length ws),
      resp_quizType = ''meaning''\<rparr>"

definition started :: "string list \<Rightarrow> Quiz" where
  "started ws = fetch_settled (Settled (Some (sample_response ws)) None) (startQuiz_call mount)"

definition finished :: "string list \<Rightarrow> Quiz" where
  "finished ws = handleFinishQuiz (started ws) (started ws)"

text \<open>A question whose correct answer is the empty string, and a session on it.\<close>

definition blank_question :: QuizQuestion where
  "blank_question =
     \<lparr>wordId = ''w1'', word = ''gap'', question = ''Which option is empty?'',
      options = [[], ''full''], correctAnswer = [], qtype = FillBlank\<rparr>"

definition blank_session :: Quiz where
  "blank_session =
     fetch_settled
       (Settled (Some \<lparr>questions = [blank_question], totalQuestions = 1,
                         resp_quizType = ''fill-blank''\<rparr>) None)
       (startQuiz_call mount)"

text \<open>A failed request with no response, and two ways for status updates to fail.\<close>

definition network_error :: AxiosError where
  "network_error = \<lparr>resp_error = None, resp_status = None\<rparr>"

definition first_fails :: "nat \<Rightarrow> bool" where
  "first_fails i = (i \<noteq> 0)"

definition all_fail :: "nat \<Rightarrow> bool" where
  "all_fail i = False"

text \<open>Five questions, the first three of them answered.\<close>

definition five :: "string list" where
  "five = [''w1'', ''w2'', ''w3'', ''w4'', ''w5'']"

definition answered_three :: Quiz where
  "answered_three =
     handleAnswerSelect ''w3'' ''long''
       (handleAnswerSelect ''w2'' ''short''
          (handleAnswerSelect ''w1'' ''short'' (started five)))"

text \<open>
  One question answered correctly, the next one visited, the first one visited again and
  its answer changed to a wrong one.
\<close>

definition changed_answer :: "Step list" where
  "changed_answer = [Select ''w1'' ''short'', Next, Previous, Select ''w1'' ''long'']"

text \<open>
  A session of one question in its last second, a session of one question answered
  correctly and finished, a 404 answer, and status updates that all succeed.
\<close>

definition last_second :: Quiz where
  "last_second = (started [''w1''])\<lparr>timeLeft := 1\<rparr>"

definition all_correct :: Quiz where
  "all_correct =
     handleFinishQuiz (handleAnswerSelect ''w1'' ''short'' (started [''w1'']))
       (handleAnswerSelect ''w1'' ''short'' (started [''w1'']))"

definition not_found :: AxiosError where
  "not_found = \<lparr>resp_error = Some ''No words found'', resp_status = Some 404\<rparr>"

definition all_succeed :: "nat \<Rightarrow> bool" where
  "all_succeed i = True"

text \<open>
  A session on one question whose identifier is the name of a member of
  \<open>Object.prototype\<close>.
\<close>

definition constructor_session :: Quiz where
  "constructor_session =
     fetch_settled
       (Settled (Some \<lparr>questions = [sample_question ''constructor''], totalQuestions = 1,
                         resp_quizType = ''meaning''\<rparr>) None)
       (click_start mount)"

text \<open>
  The five questions in the last second, after the tick that left one second, and
  the same session after a click on Next. The session of one question in its last
  second, after a click on the correct option.
\<close>

definition three_last_second :: Quiz where
  "three_last_second = answered_three\<lparr>timeLeft := 1\<rparr>"

definition three_moved :: Quiz where
  "three_moved = click_next three_last_second"

definition late_answer :: Quiz where
  "late_answer = click_option 0 last_second"

text \<open>
  Two questions: the first answered correctly, the second visited, the first visited
  again, one second left. Then a click on the wrong option of the first question.
\<close>

definition revisited :: Quiz where
  "revisited =
     (perform [Select ''w1'' ''short'', Next, Previous] (started [''w1'', ''w2'']))\<lparr>timeLeft := 1\<rparr>"

definition changed_late :: Quiz where
  "changed_late = click_option 1 revisited"

text \<open>
  A session of one question finished and reset, a second start, and its fetch failing
  with the data of the first fetch still in the result.
\<close>

definition second_start :: Quiz where
  "second_start = click_start (click_reset (click_finish (started [''w1''])))"

definition refetch_failed :: Quiz where
  "refetch_failed =
     fetch_settled (Settled (Some (sample_response [''w1''])) (Some network_error)) second_start"

section \<open>Properties\<close>

lemmas handler_defs = handleFinishQuiz_def handleAnswerSelect_def handleNextQuestion_def
  handlePreviousQuestion_def resetQuiz_def timerTick_def startQuiz_def startQuiz_call_def
  fetch_settled_def questions_length_def Let_def

lemmas sample_defs = started_def finished_def sample_response_def sample_question_def mount_def
  blank_session_def blank_question_def five_def answered_three_def
  changed_answer_def network_error_def first_fails_def all_fail_def
  last_second_def all_correct_def not_found_def all_succeed_def constructor_session_def
  three_last_second_def three_moved_def late_answer_def second_start_def refetch_failed_def
  revisited_def changed_late_def

lemmas view_defs = screen_def currentQuestion_def at_index_def in_question_view_def
  hasAnswered_def isLastQuestion_def isLoading_def click_start_def click_finish_def
  click_reset_def click_option_def click_next_def object_get_def or_default_def
  object_prototype_members_def

lemma quizResults_finish:
  "quizData r = Some d \<Longrightarrow>
   quizResults (handleFinishQuiz r s) = map (result_of (selectedAnswers r)) (questions d)"
  by (simp add: handleFinishQuiz_def Let_def)

lemma ticks_count_down:
  "timerActive s \<Longrightarrow> int n < timeLeft s \<Longrightarrow>
   (tick_fresh ^^ n) s = s\<lparr>timeLeft := timeLeft s - int n\<rparr>"
proof (induction n)
  case 0
  show ?case by simp
next
  case (Suc n)
  then have ih: "(tick_fresh ^^ n) s = s\<lparr>timeLeft := timeLeft s - int n\<rparr>"
    by simp
  have "(tick_fresh ^^ Suc n) s = tick_fresh ((tick_fresh ^^ n) s)"
    by simp
  also have "\<dots> = tick_fresh (s\<lparr>timeLeft := timeLeft s - int n\<rparr>)"
    by (simp only: ih)
  also have "\<dots> = s\<lparr>timeLeft := timeLeft s - int (Suc n)\<rparr>"
    using Suc.prems by (simp add: tick_fresh_def timerTick_def)
  finally show ?case .
qed

lemma last_seconds_reached:
  "last_second = (tick_fresh ^^ 29) (started [''w1''])"
  "three_last_second = (tick_fresh ^^ 149) answered_three"
  "revisited
     = (tick_fresh ^^ 59) (perform [Select ''w1'' ''short'', Next, Previous] (started [''w1'', ''w2'']))"
proof -
  have a: "timerActive (started [''w1''])" "timeLeft (started [''w1'']) = 30"
    by (simp_all add: sample_defs handler_defs)
  have "(tick_fresh ^^ 29) (started [''w1''])
      = (started [''w1''])\<lparr>timeLeft := timeLeft (started [''w1'']) - int 29\<rparr>"
    by (rule ticks_count_down) (simp_all add: a)
  then show "last_second = (tick_fresh ^^ 29) (started [''w1''])"
    by (simp only: last_second_def a) simp
  have b: "timerActive answered_three" "timeLeft answered_three = 150"
    by (simp_all add: sample_defs handler_defs)
  have "(tick_fresh ^^ 149) answered_three
      = answered_three\<lparr>timeLeft := timeLeft answered_three - int 149\<rparr>"
    by (rule ticks_count_down) (simp_all add: b)
  then show "three_last_second = (tick_fresh ^^ 149) answered_three"
    by (simp only: three_last_second_def b) simp
  have c: "timerActive (perform [Select ''w1'' ''short'', Next, Previous] (started [''w1'', ''w2'']))"
    "timeLeft (perform [Select ''w1'' ''short'', Next, Previous] (started [''w1'', ''w2''])) = 60"
    by (simp_all add: sample_defs handler_defs)
  have "(tick_fresh ^^ 59) (perform [Select ''w1'' ''short'', Next, Previous] (started [''w1'', ''w2'']))
      = (perform [Select ''w1'' ''short'', Next, Previous] (started [''w1'', ''w2'']))
          \<lparr>timeLeft :=
             timeLeft (perform [Select ''w1'' ''short'', Next, Previous] (started [''w1'', ''w2'']))
               - int 59\<rparr>"
  proof (rule ticks_count_down)
    show "timerActive (perform [Select ''w1'' ''short'', Next, Previous] (started [''w1'', ''w2'']))"
      by (rule c(1))
    show "int 59 < timeLeft (perform [Select ''w1'' ''short'', Next, Previous] (started [''w1'', ''w2'']))"
      unfolding c(2) by simp
  qed
  then show "revisited
     = (tick_fresh ^^ 59) (perform [Select ''w1'' ''short'', Next, Previous] (started [''w1'', ''w2'']))"
    by (simp only: revisited_def c) simp
qed

subsection \<open>Finishing without a question list\<close>

text \<open>
  Claim C10. When \<open>handleFinishQuiz\<close> runs and there is no question list (\<open>quizData\<close> is
  undefined), it switches the timer off and returns: no result is computed, nothing is
  submitted, the results are not shown, and every field of the state other than
  \<open>timerActive\<close> is as it was.
\<close>

theorem finish_no_data:
  "quizData r = None \<Longrightarrow> handleFinishQuiz r s = s\<lparr>timerActive := False\<rparr>"
  by (simp add: handleFinishQuiz_def)

theorem finish_no_data_witness:
  "quizData (startQuiz_call mount) = None \<and>
   handleFinishQuiz (startQuiz_call mount) (startQuiz_call mount)
     = (startQuiz_call mount)\<lparr>timerActive := False\<rparr> \<and>
   quizResults (handleFinishQuiz (startQuiz_call mount) (startQuiz_call mount)) = [] \<and>
   submitted (handleFinishQuiz (startQuiz_call mount) (startQuiz_call mount)) = [] \<and>
   \<not> showResults (handleFinishQuiz (startQuiz_call mount) (startQuiz_call mount))"
proof -
  have h: "quizData (startQuiz_call mount) = None"
    by (simp add: startQuiz_call_def mount_def)
  show ?thesis
    using h finish_no_data [OF h, of "startQuiz_call mount"]
    by (simp add: startQuiz_call_def mount_def)
qed

subsection \<open>The result computed by finish\<close>

text \<open>
  Claim C3, as amended. Take a finish that reads the questions and the answers as they
  are recorded by then: a finish the user calls, or the finish of the timer when no
  answer was selected since the render that made the interval callback. For a session with \<open>n\<close> questions the result
  it computes (and hands to the submission) has exactly \<open>n\<close> entries, entry \<open>i\<close>
  built from question \<open>i\<close>, however many questions were answered. An entry whose
  question has no recorded answer has \<open>correct = false\<close> and, unless the identifier of
  the question is the name of a member of \<open>Object.prototype\<close>, the empty string as
  \<open>selectedAnswer\<close>; an entry whose question has the recorded answer \<open>a\<close> has
  \<open>selectedAnswer = a\<close> and \<open>correct = (a === correctAnswer)\<close>. So \<open>correct\<close> is the
  comparison of the recorded answer with the correct one, and it equals
  \<open>selectedAnswer === correctAnswer\<close> whenever the question was answered or its correct
  answer is not the empty string.
\<close>

theorem finish_result_entries:
  assumes "quizData s = Some d"
    and "quizData r = quizData s" and "selectedAnswers r = selectedAnswers s"
  shows "length (quizResults (handleFinishQuiz r s)) = length (questions d) \<and>
     submitted (handleFinishQuiz r s) = submitted s @ [quizResults (handleFinishQuiz r s)] \<and>
     (timerActive s \<and> timeLeft s = 1 \<longrightarrow>
        quizResults (timerTick r s) = quizResults (handleFinishQuiz r s)) \<and>
     (\<forall>i < length (questions d).
        r_wordId (quizResults (handleFinishQuiz r s) ! i) = wordId (questions d ! i) \<and>
        r_word (quizResults (handleFinishQuiz r s) ! i) = word (questions d ! i) \<and>
        r_question (quizResults (handleFinishQuiz r s) ! i) = question (questions d ! i) \<and>
        r_correctAnswer (quizResults (handleFinishQuiz r s) ! i) = correctAnswer (questions d ! i) \<and>
        (selectedAnswers s (wordId (questions d ! i)) = None \<longrightarrow>
           \<not> correct (quizResults (handleFinishQuiz r s) ! i) \<and>
           (wordId (questions d ! i) \<notin> set object_prototype_members \<longrightarrow>
              selectedAnswer (quizResults (handleFinishQuiz r s) ! i) = Str [])) \<and>
        (\<forall>a. selectedAnswers s (wordId (questions d ! i)) = Some a \<longrightarrow>
           selectedAnswer (quizResults (handleFinishQuiz r s) ! i) = Str a \<and>
           correct (quizResults (handleFinishQuiz r s) ! i) = (a = correctAnswer (questions d ! i))) \<and>
        (selectedAnswers s (wordId (questions d ! i)) \<noteq> None \<or> correctAnswer (questions d ! i) \<noteq> [] \<longrightarrow>
           correct (quizResults (handleFinishQuiz r s) ! i)
             = (selectedAnswer (quizResults (handleFinishQuiz r s) ! i)
                  = Str (r_correctAnswer (quizResults (handleFinishQuiz r s) ! i)))))"
proof -
  have rd: "quizData r = Some d"
    using assms(1,2) by simp
  have rs: "quizResults (handleFinishQuiz r s) = map (result_of (selectedAnswers s)) (questions d)"
    using rd assms(3) by (simp add: quizResults_finish)
  have sub: "submitted (handleFinishQuiz r s) = submitted s @ [quizResults (handleFinishQuiz r s)]"
    using rd by (simp add: handleFinishQuiz_def Let_def)
  have tick: "timerActive s \<and> timeLeft s = 1 \<longrightarrow>
      quizResults (timerTick r s) = quizResults (handleFinishQuiz r s)"
    using rd by (simp add: timerTick_def handleFinishQuiz_def Let_def)
  have entries: "\<forall>i < length (questions d).
        r_wordId (map (result_of (selectedAnswers s)) (questions d) ! i) = wordId (questions d ! i) \<and>
        r_word (map (result_of (selectedAnswers s)) (questions d) ! i) = word (questions d ! i) \<and>
        r_question (map (result_of (selectedAnswers s)) (questions d) ! i) = question (questions d ! i) \<and>
        r_correctAnswer (map (result_of (selectedAnswers s)) (questions d) ! i) = correctAnswer (questions d ! i) \<and>
        (selectedAnswers s (wordId (questions d ! i)) = None \<longrightarrow>
           \<not> correct (map (result_of (selectedAnswers s)) (questions d) ! i) \<and>
           (wordId (questions d ! i) \<notin> set object_prototype_members \<longrightarrow>
              selectedAnswer (map (result_of (selectedAnswers s)) (questions d) ! i) = Str [])) \<and>
        (\<forall>a. selectedAnswers s (wordId (questions d ! i)) = Some a \<longrightarrow>
           selectedAnswer (map (result_of (selectedAnswers s)) (questions d) ! i) = Str a \<and>
           correct (map (result_of (selectedAnswers s)) (questions d) ! i) = (a = correctAnswer (questions d ! i))) \<and>
        (selectedAnswers s (wordId (questions d ! i)) \<noteq> None \<or> correctAnswer (questions d ! i) \<noteq> [] \<longrightarrow>
           correct (map (result_of (selectedAnswers s)) (questions d) ! i)
             = (selectedAnswer (map (result_of (selectedAnswers s)) (questions d) ! i)
                  = Str (r_correctAnswer (map (result_of (selectedAnswers s)) (questions d) ! i))))"
    by (auto simp: result_of_def object_get_def or_default_def split: option.splits)
  show ?thesis
    using sub tick entries unfolding rs by simp
qed

text \<open>
  Three of five questions answered, a click on Next in the last second, then the timer
  runs out: five entries, the last two with the empty string and \<open>correct = false\<close>.
\<close>

theorem finish_result_entries_witness:
  "three_last_second = (tick_fresh ^^ 149) answered_three \<and>
   quizData three_moved = Some (sample_response five) \<and>
   quizData three_last_second = quizData three_moved \<and>
   selectedAnswers three_last_second = selectedAnswers three_moved \<and>
   currentQuestionIndex three_last_second = 0 \<and>
   currentQuestionIndex three_moved = 1 \<and>
   timerActive three_moved \<and> timeLeft three_moved = 1 \<and>
   length (quizResults (timerTick three_last_second three_moved)) = 5 \<and>
   map selectedAnswer (quizResults (timerTick three_last_second three_moved))
     = [Str ''short'', Str ''short'', Str ''long'', Str [], Str []] \<and>
   map correct (quizResults (timerTick three_last_second three_moved))
     = [True, True, False, False, False]"
proof -
  have m: "three_moved = three_last_second\<lparr>currentQuestionIndex := 1\<rparr>"
    by (simp add: sample_defs handler_defs view_defs)
  have h: "quizData three_last_second = Some (sample_response five)"
    by (simp add: sample_defs handler_defs view_defs)
  have h': "quizData three_moved = Some (sample_response five)"
    "quizData three_last_second = quizData three_moved"
    unfolding m using h by simp_all
  have a: "selectedAnswers three_last_second = selectedAnswers three_moved"
    unfolding m by simp
  have i: "currentQuestionIndex three_last_second = 0" "currentQuestionIndex three_moved = 1"
    unfolding m by (simp_all add: sample_defs handler_defs view_defs)
  have c: "timerActive three_moved" "timeLeft three_moved = 1"
    unfolding m by (simp_all add: sample_defs handler_defs view_defs)
  have n: "length (questions (sample_response five)) = 5"
    by (simp add: sample_defs)
  note t = finish_result_entries [OF h' a]
  have k: "quizResults (timerTick three_last_second three_moved)
      = quizResults (handleFinishQuiz three_last_second three_moved)"
    using t c by blast
  have l: "length (quizResults (timerTick three_last_second three_moved)) = 5"
    unfolding k using t n by simp
  have e: "map selectedAnswer (quizResults (handleFinishQuiz three_last_second three_moved))
     = [Str ''short'', Str ''short'', Str ''long'', Str [], Str []]"
    "map correct (quizResults (handleFinishQuiz three_last_second three_moved))
     = [True, True, False, False, False]"
    by (simp_all add: quizResults_finish [OF h])
       (simp_all add: sample_defs handler_defs view_defs result_of_def)
  show ?thesis
    using last_seconds_reached(2) h' a i c l e unfolding k by blast
qed

text \<open>
  The claim as it was stated fails on an unanswered question whose correct answer is the
  empty string: the entry's \<open>selectedAnswer\<close> equals its \<open>correctAnswer\<close>, and
  \<open>correct\<close> is false. It fails on an unanswered question named \<open>constructor\<close>: the
  entry's \<open>selectedAnswer\<close> is the inherited function, not the empty string. And when
  the correct answer is selected in the last second, the timer's result has the empty
  string and \<open>correct = false\<close> for a question that has a recorded answer.
\<close>

theorem finish_result_blank_counterexample:
  "selectedAnswers blank_session ''w1'' = None \<and>
   selectedAnswer (quizResults (click_finish blank_session) ! 0)
     = Str (r_correctAnswer (quizResults (click_finish blank_session) ! 0)) \<and>
   \<not> correct (quizResults (click_finish blank_session) ! 0) \<and>
   selectedAnswers constructor_session ''constructor'' = None \<and>
   selectedAnswer (quizResults (click_finish constructor_session) ! 0) = Member ''constructor'' \<and>
   last_second = (tick_fresh ^^ 29) (started [''w1'']) \<and>
   late_answer = handleAnswerSelect ''w1'' ''short'' last_second \<and>
   selectedAnswers late_answer ''w1'' = Some ''short'' \<and>
   r_correctAnswer (quizResults (timerTick last_second late_answer) ! 0) = ''short'' \<and>
   selectedAnswer (quizResults (timerTick last_second late_answer) ! 0) = Str [] \<and>
   \<not> correct (quizResults (timerTick last_second late_answer) ! 0)"
proof -
  have blank: "selectedAnswers blank_session ''w1'' = None"
    "selectedAnswer (quizResults (click_finish blank_session) ! 0)
       = Str (r_correctAnswer (quizResults (click_finish blank_session) ! 0))"
    "\<not> correct (quizResults (click_finish blank_session) ! 0)"
    by (simp_all add: sample_defs handler_defs view_defs result_of_def)
  have named: "selectedAnswers constructor_session ''constructor'' = None"
    "selectedAnswer (quizResults (click_finish constructor_session) ! 0) = Member ''constructor''"
    by (simp_all add: sample_defs handler_defs view_defs result_of_def)
  have late: "late_answer = handleAnswerSelect ''w1'' ''short'' last_second"
    "selectedAnswers late_answer ''w1'' = Some ''short''"
    "r_correctAnswer (quizResults (timerTick last_second late_answer) ! 0) = ''short''"
    "selectedAnswer (quizResults (timerTick last_second late_answer) ! 0) = Str []"
    "\<not> correct (quizResults (timerTick last_second late_answer) ! 0)"
    by (simp_all add: sample_defs handler_defs view_defs result_of_def)
  show ?thesis
    using blank named last_seconds_reached(1) late by blast
qed

subsection \<open>Steps between start and finish\<close>

lemma perform_answers:
  "selectedAnswers (perform xs s) w = latest_selection w xs (selectedAnswers s w)"
proof (induction xs arbitrary: s)
  case Nil
  show ?case by simp
next
  case (Cons x xs)
  show ?case
  proof (cases x)
    case (Select w' a)
    then show ?thesis using Cons.IH [of "handleAnswerSelect w' a s"]
      by (simp add: handleAnswerSelect_def)
  next
    case Next
    then show ?thesis using Cons.IH [of "handleNextQuestion s s"]
      by (simp add: handleNextQuestion_def handleFinishQuiz_def Let_def split: option.splits)
  next
    case Previous
    then show ?thesis using Cons.IH [of "handlePreviousQuestion s s"]
      by (simp add: handlePreviousQuestion_def)
  qed
qed

lemma perform_quizData: "quizData (perform xs s) = quizData s"
proof (induction xs arbitrary: s)
  case Nil
  show ?case by simp
next
  case (Cons x xs)
  show ?case
    by (cases x)
       (simp_all add: Cons.IH handleAnswerSelect_def handleNextQuestion_def
          handlePreviousQuestion_def handleFinishQuiz_def Let_def split: option.splits)
qed

subsection \<open>The finish of the timer\<close>

text \<open>
  When the timer runs out, the result is computed from the answers of the render that
  created the interval callback: an answer selected after that render, within the last
  second, is in the state and not in the result.
\<close>

lemma timer_expiry_results:
  "timerActive s \<Longrightarrow> timeLeft s = 1 \<Longrightarrow> quizData r = Some d \<Longrightarrow>
   quizResults (timerTick r s) = map (result_of (selectedAnswers r)) (questions d) \<and>
   selectedAnswers (timerTick r s) = selectedAnswers s"
  by (simp add: timerTick_def handleFinishQuiz_def Let_def)

subsection \<open>Starting a session\<close>

text \<open>
  Claim C7. When \<open>startQuiz\<close> gets a list of \<open>n > 0\<close> questions, the session begins
  with \<open>currentQuestionIndex = 0\<close>, no answers, \<open>timeLeft = n * 30\<close> and the timer
  running (the next tick takes one second off); the questions are the fetched ones, the
  question view is shown and the results are not.
\<close>

theorem start_initial_session:
  assumes "questions d \<noteq> []"
  shows "fetch_settled (Settled (Some d) None) (startQuiz_call s)
       = s\<lparr>quizStarted := True, currentQuestionIndex := 0, selectedAnswers := Map.empty,
            showResults := False, timeLeft := int (length (questions d)) * 30,
            timerActive := True, quizData := Some d, error := None\<rparr> \<and>
     currentQuestionIndex (startQuiz (Resolved (Some d)) s) = 0 \<and>
     selectedAnswers (startQuiz (Resolved (Some d)) s) = Map.empty \<and>
     timeLeft (startQuiz (Resolved (Some d)) s) = int (length (questions d)) * 30 \<and>
     timerActive (startQuiz (Resolved (Some d)) s) \<and>
     quizStarted (startQuiz (Resolved (Some d)) s) \<and>
     \<not> showResults (startQuiz (Resolved (Some d)) s) \<and>
     screen (fetch_settled (Settled (Some d) None) (startQuiz_call s)) = QuestionView False \<and>
     timeLeft (timerTick r (startQuiz (Resolved (Some d)) s)) = int (length (questions d)) * 30 - 1"
  using assms
  by (cases "questions d") (simp_all add: handler_defs view_defs)

text \<open>Five questions give 150 seconds.\<close>

theorem start_initial_session_witness:
  "questions (sample_response five) \<noteq> [] \<and>
   currentQuestionIndex (started five) = 0 \<and>
   selectedAnswers (started five) = Map.empty \<and>
   timeLeft (started five) = 150 \<and>
   timerActive (started five) \<and>
   quizStarted (started five) \<and>
   \<not> showResults (started five) \<and>
   quizData (started five) = Some (sample_response five)"
proof -
  have h: "questions (sample_response five) \<noteq> []"
    by (simp add: sample_defs)
  have n: "int (length (questions (sample_response five))) * 30 = 150"
    by (simp add: sample_defs)
  show ?thesis
    using h start_initial_session [OF h, of mount mount]
    unfolding started_def n by simp
qed

text \<open>
  Claim C8, as amended. When the fetch answers with an empty list, \<open>startQuiz\<close> creates
  no session: no field of the component changes (the configuration included), the
  configuration view stays, and the toast says that no questions are available. When the
  fetch fails and its result holds no data (\<open>refetch\<close> resolving with an error and no
  data, or rejecting), no session is created and no field of the component changes
  either, the configuration included; the component then shows its error view in place
  of the configuration view, with one heading for a 404 and another for every other
  failure.
\<close>

theorem start_without_questions:
  "(questions d = [] \<longrightarrow>
      fetch_settled (Settled (Some d) None) (startQuiz_call s)
        = s\<lparr>quizData := Some d, error := None,
             toasts := toasts s @ [ToastError ''No questions available for the selected criteria'']\<rparr> \<and>
      (\<not> quizStarted s \<longrightarrow>
         screen (fetch_settled (Settled (Some d) None) (startQuiz_call s)) = ConfigView)) \<and>
   (fetch_settled (Settled None (Some e)) (startQuiz_call s))\<lparr>toasts := toasts s\<rparr>
     = s\<lparr>quizData := None, error := Some e\<rparr> \<and>
   (fetch_settled (Thrown e) (startQuiz_call s))\<lparr>toasts := toasts s\<rparr> = s\<lparr>error := Some e\<rparr> \<and>
   screen (fetch_settled (Settled None (Some e)) (startQuiz_call s))
     = (if resp_status e = Some 404
        then ErrorView ''No words available for quiz''
               ''You need to add some vocabulary words before you can take a quiz.''
        else ErrorView ''Error loading quiz'' (or_else (resp_error e) ''Failed to load quiz'')) \<and>
   screen (fetch_settled (Thrown e) (startQuiz_call s))
     = screen (fetch_settled (Settled None (Some e)) (startQuiz_call s))"
  by (simp add: handler_defs screen_def)

theorem start_without_questions_witness:
  "questions (sample_response []) = [] \<and>
   \<not> quizStarted mount \<and>
   screen (fetch_settled (Settled (Some (sample_response [])) None) (startQuiz_call mount))
     = ConfigView \<and>
   quizType (fetch_settled (Settled (Some (sample_response [])) None) (startQuiz_call mount))
     = quizType mount \<and>
   questionCount (fetch_settled (Settled (Some (sample_response [])) None) (startQuiz_call mount))
     = questionCount mount \<and>
   status (fetch_settled (Settled (Some (sample_response [])) None) (startQuiz_call mount))
     = status mount \<and>
   toasts (fetch_settled (Settled (Some (sample_response [])) None) (startQuiz_call mount))
     = [ToastError ''No questions available for the selected criteria''] \<and>
   quizStarted (fetch_settled (Settled None (Some not_found)) (startQuiz_call mount)) = False \<and>
   questionCount (fetch_settled (Settled None (Some not_found)) (startQuiz_call mount)) = 10 \<and>
   screen (fetch_settled (Settled None (Some not_found)) (startQuiz_call mount))
     = ErrorView ''No words available for quiz''
         ''You need to add some vocabulary words before you can take a quiz.'' \<and>
   screen (fetch_settled (Thrown network_error) (startQuiz_call mount))
     = ErrorView ''Error loading quiz'' ''Failed to load quiz''"
proof -
  have q: "questions (sample_response []) = []"
    by (simp add: sample_defs)
  have m: "\<not> quizStarted mount"
    by (simp add: mount_def)
  note t = start_without_questions [of "sample_response []" mount not_found]
  note u = start_without_questions [of "sample_response []" mount network_error]
  have e: "fetch_settled (Settled (Some (sample_response [])) None) (startQuiz_call mount)
      = mount\<lparr>quizData := Some (sample_response []), error := None,
           toasts := toasts mount @ [ToastError ''No questions available for the selected criteria'']\<rparr>"
    using t q by blast
  have v: "screen (fetch_settled (Settled (Some (sample_response [])) None) (startQuiz_call mount))
      = ConfigView"
    using t q m by blast
  have f: "quizType (fetch_settled (Settled (Some (sample_response [])) None) (startQuiz_call mount))
      = quizType mount"
    "questionCount (fetch_settled (Settled (Some (sample_response [])) None) (startQuiz_call mount))
      = questionCount mount"
    "status (fetch_settled (Settled (Some (sample_response [])) None) (startQuiz_call mount))
      = status mount"
    "toasts (fetch_settled (Settled (Some (sample_response [])) None) (startQuiz_call mount))
      = [ToastError ''No questions available for the selected criteria'']"
    unfolding e by (simp_all add: mount_def)
  have g: "(fetch_settled (Settled None (Some not_found)) (startQuiz_call mount))\<lparr>toasts := toasts mount\<rparr>
      = mount\<lparr>quizData := None, error := Some not_found\<rparr>"
    using t by blast
  have g1: "quizStarted (fetch_settled (Settled None (Some not_found)) (startQuiz_call mount))
      = quizStarted ((fetch_settled (Settled None (Some not_found)) (startQuiz_call mount))\<lparr>toasts := toasts mount\<rparr>)"
    "questionCount (fetch_settled (Settled None (Some not_found)) (startQuiz_call mount))
      = questionCount ((fetch_settled (Settled None (Some not_found)) (startQuiz_call mount))\<lparr>toasts := toasts mount\<rparr>)"
    by simp_all
  have g2: "quizStarted (fetch_settled (Settled None (Some not_found)) (startQuiz_call mount)) = False"
    "questionCount (fetch_settled (Settled None (Some not_found)) (startQuiz_call mount)) = 10"
    unfolding g1 g by (simp_all add: mount_def)
  have h: "screen (fetch_settled (Settled None (Some not_found)) (startQuiz_call mount))
      = ErrorView ''No words available for quiz''
          ''You need to add some vocabulary words before you can take a quiz.''"
    using t by (simp add: not_found_def)
  have k: "screen (fetch_settled (Thrown network_error) (startQuiz_call mount))
      = ErrorView ''Error loading quiz'' ''Failed to load quiz''"
    using u by (simp add: network_error_def or_else_def)
  show ?thesis
    using q m v f g2 h k by blast
qed

text \<open>
  The claim as it was stated fails on a fetch that fails with no response: the
  configuration view gives way to the error view, and the toast is the one of the empty
  list. It fails as well on a second start, after a finished session and a reset, whose
  fetch fails with the data of the first fetch still in its result: a session begins
  behind the error view, with the timer running.
\<close>

theorem start_failure_counterexample:
  "screen (startQuiz_call mount) = ConfigView \<and>
   screen (fetch_settled (Settled None (Some network_error)) (startQuiz_call mount))
     = ErrorView ''Error loading quiz'' ''Failed to load quiz'' \<and>
   toasts (fetch_settled (Settled None (Some network_error)) (startQuiz_call mount))
     = toasts (fetch_settled (Settled (Some (sample_response [])) None) (startQuiz_call mount)) \<and>
   screen second_start = ConfigView \<and>
   quizStarted second_start = False \<and>
   quizStarted refetch_failed \<and>
   timerActive refetch_failed \<and>
   screen refetch_failed = ErrorView ''Error loading quiz'' ''Failed to load quiz''"
  by (simp add: sample_defs handler_defs view_defs or_else_def)

subsection \<open>Selecting answers\<close>

text \<open>
  What holds of the selection of answers. \<open>handleAnswerSelect\<close> overwrites the earlier
  selection for the same question, so one answer, the latest, is recorded for it; it
  leaves the answers of the other questions, \<open>currentQuestionIndex\<close> and the timer as
  they are. The navigation handlers never change the recorded answers. So after any
  list of selections and navigation steps the answer recorded for a question is the
  latest one selected for it, and when the user then finishes by a click, the entry of
  that question holds this answer and is marked correct exactly if it is the correct
  answer.
\<close>

lemma select_answer_latest:
  "handleAnswerSelect w b (handleAnswerSelect w a s) = handleAnswerSelect w b s \<and>
   selectedAnswers (handleAnswerSelect w a s) w = Some a \<and>
   (\<forall>w'. w' \<noteq> w \<longrightarrow> selectedAnswers (handleAnswerSelect w a s) w' = selectedAnswers s w') \<and>
   currentQuestionIndex (handleAnswerSelect w a s) = currentQuestionIndex s \<and>
   timeLeft (handleAnswerSelect w a s) = timeLeft s \<and>
   timerActive (handleAnswerSelect w a s) = timerActive s \<and>
   selectedAnswers (handleNextQuestion r s) = selectedAnswers s \<and>
   selectedAnswers (handlePreviousQuestion r s) = selectedAnswers s \<and>
   selectedAnswers (perform xs s) w = latest_selection w xs (selectedAnswers s w) \<and>
   (quizData s = Some d \<and> i < length (questions d) \<and> wordId (questions d ! i) = w \<and>
    latest_selection w xs (selectedAnswers s w) = Some a \<longrightarrow>
      selectedAnswer (quizResults (handleFinishQuiz (perform xs s) (perform xs s)) ! i) = Str a \<and>
      correct (quizResults (handleFinishQuiz (perform xs s) (perform xs s)) ! i)
        = (a = correctAnswer (questions d ! i)))"
proof -
  have nav: "selectedAnswers (handleNextQuestion r s) = selectedAnswers s"
    "selectedAnswers (handlePreviousQuestion r s) = selectedAnswers s"
    by (simp_all add: handleNextQuestion_def handlePreviousQuestion_def handleFinishQuiz_def
          Let_def split: option.splits)
  have sel: "handleAnswerSelect w b (handleAnswerSelect w a s) = handleAnswerSelect w b s"
    "selectedAnswers (handleAnswerSelect w a s) w = Some a"
    "\<forall>w'. w' \<noteq> w \<longrightarrow> selectedAnswers (handleAnswerSelect w a s) w' = selectedAnswers s w'"
    "currentQuestionIndex (handleAnswerSelect w a s) = currentQuestionIndex s"
    "timeLeft (handleAnswerSelect w a s) = timeLeft s"
    "timerActive (handleAnswerSelect w a s) = timerActive s"
    by (simp_all add: handleAnswerSelect_def)
  have res: "selectedAnswer (quizResults (handleFinishQuiz (perform xs s) (perform xs s)) ! i) = Str a \<and>
      correct (quizResults (handleFinishQuiz (perform xs s) (perform xs s)) ! i)
        = (a = correctAnswer (questions d ! i))"
    if d: "quizData s = Some d" and i: "i < length (questions d)"
      and w: "wordId (questions d ! i) = w"
      and l: "latest_selection w xs (selectedAnswers s w) = Some a"
  proof -
    have "quizData (perform xs s) = Some d"
      using d by (simp add: perform_quizData)
    then have "quizResults (handleFinishQuiz (perform xs s) (perform xs s))
        = map (result_of (selectedAnswers (perform xs s))) (questions d)"
      by (rule quizResults_finish)
    moreover have "selectedAnswers (perform xs s) w = Some a"
      using l by (simp add: perform_answers)
    ultimately show ?thesis
      using i w by (simp add: result_of_def object_get_def or_default_def)
  qed
  show ?thesis
    using nav sel res perform_answers [of xs s w] by blast
qed

text \<open>
  The first question answered correctly, the second visited, the first visited again and
  answered wrongly, then finish: the entry of the first question holds the wrong answer.
\<close>

lemma select_answer_latest_example:
  "quizData (started [''w1'', ''w2'']) = Some (sample_response [''w1'', ''w2'']) \<and>
   latest_selection ''w1'' changed_answer (selectedAnswers (started [''w1'', ''w2'']) ''w1'')
     = Some ''long'' \<and>
   currentQuestionIndex (perform changed_answer (started [''w1'', ''w2''])) = 0 \<and>
   selectedAnswer
     (quizResults (handleFinishQuiz (perform changed_answer (started [''w1'', ''w2'']))
        (perform changed_answer (started [''w1'', ''w2'']))) ! 0) = Str ''long'' \<and>
   \<not> correct
     (quizResults (handleFinishQuiz (perform changed_answer (started [''w1'', ''w2'']))
        (perform changed_answer (started [''w1'', ''w2'']))) ! 0)"
proof -
  have d: "quizData (started [''w1'', ''w2'']) = Some (sample_response [''w1'', ''w2''])"
    by (simp add: sample_defs handler_defs)
  have l: "latest_selection ''w1'' changed_answer (selectedAnswers (started [''w1'', ''w2'']) ''w1'')
     = Some ''long''"
    by (simp add: changed_answer_def)
  have q: "0 < length (questions (sample_response [''w1'', ''w2'']))"
    "wordId (questions (sample_response [''w1'', ''w2'']) ! 0) = ''w1''"
    "correctAnswer (questions (sample_response [''w1'', ''w2'']) ! 0) = ''short''"
    by (simp_all add: sample_defs)
  have c: "currentQuestionIndex (perform changed_answer (started [''w1'', ''w2''])) = 0"
    by (simp add: sample_defs handler_defs)
  show ?thesis
    using d l q c
      select_answer_latest [of "''w1''" "''long''" "''long''" "started [''w1'', ''w2'']"
        "started [''w1'', ''w2'']" changed_answer "sample_response [''w1'', ''w2'']" 0]
    by simp
qed

text \<open>
  Claim C9 says that \<open>selectAnswer\<close> overwrites the earlier selection, that it leaves
  the index and the timer as they are, that moving between the questions never changes
  a recorded answer, and that the result of a question visited again therefore holds
  the latest answer selected before the finish. The code breaks the last part when the
  timer finishes the session: the interval callback computes the result from the answers
  of the render that made it. Here the first question was answered correctly and
  visited again, one second is left, and the user changes the answer to the wrong
  option before the tick: the result of the tick holds the earlier answer and
  \<open>correct = true\<close>, where a finish by a click holds the latest answer and
  \<open>correct = false\<close>.
\<close>

theorem timer_finish_stale_answer:
  "revisited
     = (tick_fresh ^^ 59) (perform [Select ''w1'' ''short'', Next, Previous] (started [''w1'', ''w2''])) \<and>
   selectedAnswers revisited ''w1'' = Some ''short'' \<and>
   currentQuestionIndex revisited = 0 \<and>
   timerActive revisited \<and> timeLeft revisited = 1 \<and>
   changed_late = handleAnswerSelect ''w1'' ''long'' revisited \<and>
   selectedAnswers changed_late ''w1'' = Some ''long'' \<and>
   timerActive changed_late \<and> timeLeft changed_late = 1 \<and>
   selectedAnswer (quizResults (timerTick revisited changed_late) ! 0) = Str ''short'' \<and>
   correct (quizResults (timerTick revisited changed_late) ! 0) \<and>
   submitted (timerTick revisited changed_late) = [quizResults (timerTick revisited changed_late)] \<and>
   selectedAnswer (quizResults (click_finish changed_late) ! 0) = Str ''long'' \<and>
   \<not> correct (quizResults (click_finish changed_late) ! 0)"
proof -
  have before: "selectedAnswers revisited ''w1'' = Some ''short''"
    "currentQuestionIndex revisited = 0"
    "timerActive revisited" "timeLeft revisited = 1"
    by (simp_all add: sample_defs handler_defs view_defs)
  have change: "changed_late = handleAnswerSelect ''w1'' ''long'' revisited"
    "selectedAnswers changed_late ''w1'' = Some ''long''"
    "timerActive changed_late" "timeLeft changed_late = 1"
    by (simp_all add: sample_defs handler_defs view_defs)
  have tick: "selectedAnswer (quizResults (timerTick revisited changed_late) ! 0) = Str ''short''"
    "correct (quizResults (timerTick revisited changed_late) ! 0)"
    "submitted (timerTick revisited changed_late) = [quizResults (timerTick revisited changed_late)]"
    by (simp_all add: sample_defs handler_defs view_defs result_of_def)
  have click: "selectedAnswer (quizResults (click_finish changed_late) ! 0) = Str ''long''"
    "\<not> correct (quizResults (click_finish changed_late) ! 0)"
    by (simp_all add: sample_defs handler_defs view_defs result_of_def)
  show ?thesis
    using last_seconds_reached(3) before change tick click by blast
qed

text \<open>
  Claim C6, as amended. \<open>handleAnswerSelect\<close> has no guard: in every state, also after
  the session has finished, it records the answer for the question. It changes nothing
  else: the result already computed and submitted, \<open>showResults\<close> and the view stay as
  they are.
\<close>

theorem select_answer_unguarded:
  "selectedAnswers (handleAnswerSelect w a s) w = Some a \<and>
   handleAnswerSelect w a s = s\<lparr>selectedAnswers := (selectedAnswers s)(w \<mapsto> a)\<rparr> \<and>
   quizResults (handleAnswerSelect w a s) = quizResults s \<and>
   submitted (handleAnswerSelect w a s) = submitted s \<and>
   showResults (handleAnswerSelect w a s) = showResults s \<and>
   screen (handleAnswerSelect w a s) = screen s \<and>
   (quizData s = Some d \<longrightarrow>
      showResults (handleFinishQuiz s s) \<and>
      selectedAnswers (handleAnswerSelect w a (handleFinishQuiz s s)) w = Some a \<and>
      quizResults (handleAnswerSelect w a (handleFinishQuiz s s)) = quizResults (handleFinishQuiz s s) \<and>
      submitted (handleAnswerSelect w a (handleFinishQuiz s s)) = submitted (handleFinishQuiz s s))"
  by (simp add: handleAnswerSelect_def handleFinishQuiz_def Let_def screen_def currentQuestion_def
        split: option.splits)

theorem select_answer_unguarded_witness:
  "quizData (started [''w1'']) = Some (sample_response [''w1'']) \<and>
   showResults (finished [''w1'']) \<and>
   selectedAnswers (handleAnswerSelect ''w1'' ''long'' (finished [''w1''])) ''w1'' = Some ''long'' \<and>
   quizResults (handleAnswerSelect ''w1'' ''long'' (finished [''w1''])) = quizResults (finished [''w1'']) \<and>
   submitted (handleAnswerSelect ''w1'' ''long'' (finished [''w1''])) = submitted (finished [''w1''])"
proof -
  have d: "quizData (started [''w1'']) = Some (sample_response [''w1''])"
    by (simp add: sample_defs handler_defs)
  show ?thesis
    using d select_answer_unguarded [of "''w1''" "''long''" "started [''w1'']" "sample_response [''w1'']"]
      select_answer_unguarded [of "''w1''" "''long''" "finished [''w1'']" "sample_response [''w1'']"]
    unfolding finished_def by simp
qed

text \<open>
  The claim as it was stated fails after finish: the option buttons are still rendered
  under the results, and a click on one records an answer for a question that had none.
\<close>

theorem select_after_finish_counterexample:
  "showResults (finished [''w1'']) \<and>
   selectedAnswers (finished [''w1'']) ''w1'' = None \<and>
   selectedAnswers (click_option 1 (finished [''w1''])) ''w1'' = Some ''long''"
  by (simp add: click_option_def sample_defs handler_defs view_defs)

subsection \<open>Moving to the next question\<close>

lemma click_next_gate:
  "click_next s
     = (if in_question_view s \<and> hasAnswered s \<and> \<not> isLastQuestion s
        then handleNextQuestion s s else s)"
  by (auto simp: click_next_def)

text \<open>
  Claim C5, as amended. \<open>handleNextQuestion\<close> at the last index does what
  \<open>handleFinishQuiz\<close> does, below the last index it adds exactly one to
  \<open>currentQuestionIndex\<close>, and it never looks at the answers. The Next button, its only
  caller, asks for more: below the last index a click adds exactly one to
  \<open>currentQuestionIndex\<close> when the current question has a recorded, non-empty answer,
  and does nothing when it has no recorded answer and its identifier is not the name of
  a member of \<open>Object.prototype\<close>.
\<close>

theorem next_question_steps:
  "(quizData r = Some d \<and> currentQuestionIndex r = int (length (questions d)) - 1 \<longrightarrow>
      handleNextQuestion r s = handleFinishQuiz r s) \<and>
   (quizData r = Some d \<and> currentQuestionIndex r < int (length (questions d)) - 1 \<longrightarrow>
      handleNextQuestion r s = s\<lparr>currentQuestionIndex := currentQuestionIndex s + 1\<rparr>) \<and>
   (in_question_view s \<and> currentQuestionIndex s < questions_length s - 1 \<and>
    currentQuestion s = Some q \<longrightarrow>
      (\<forall>a. selectedAnswers s (wordId q) = Some a \<and> a \<noteq> [] \<longrightarrow>
         click_next s = s\<lparr>currentQuestionIndex := currentQuestionIndex s + 1\<rparr>) \<and>
      (selectedAnswers s (wordId q) = None \<and> wordId q \<notin> set object_prototype_members \<longrightarrow>
         click_next s = s))"
  by (simp add: handleNextQuestion_def questions_length_def click_next_def isLastQuestion_def
        hasAnswered_def object_get_def)

theorem next_question_steps_witness:
  "quizData (started [''w1'', ''w2'']) = Some (sample_response [''w1'', ''w2'']) \<and>
   in_question_view (started [''w1'', ''w2'']) \<and>
   currentQuestionIndex (started [''w1'', ''w2'']) = 0 \<and>
   questions_length (started [''w1'', ''w2'']) = 2 \<and>
   currentQuestion (started [''w1'', ''w2'']) = Some (sample_question ''w1'') \<and>
   selectedAnswers (started [''w1'', ''w2'']) ''w1'' = None \<and>
   ''w1'' \<notin> set object_prototype_members \<and>
   currentQuestionIndex (click_next (started [''w1'', ''w2''])) = 0 \<and>
   selectedAnswers (click_option 1 (started [''w1'', ''w2''])) ''w1'' = Some ''long'' \<and>
   currentQuestionIndex (click_next (click_option 1 (started [''w1'', ''w2'']))) = 1 \<and>
   currentQuestionIndex
     (handleNextQuestion (started [''w1'', ''w2'']) (started [''w1'', ''w2''])) = 1 \<and>
   handleNextQuestion (started [''w1'']) (started [''w1'']) = finished [''w1'']"
proof -
  have a: "quizData (started [''w1'', ''w2'']) = Some (sample_response [''w1'', ''w2''])"
    "currentQuestionIndex (started [''w1'', ''w2'']) = 0"
    "questions_length (started [''w1'', ''w2'']) = 2"
    "int (length (questions (sample_response [''w1'', ''w2'']))) = 2"
    "currentQuestion (started [''w1'', ''w2'']) = Some (sample_question ''w1'')"
    "selectedAnswers (started [''w1'', ''w2'']) ''w1'' = None"
    "wordId (sample_question ''w1'') = ''w1''"
    by (simp_all add: sample_defs handler_defs currentQuestion_def at_index_def)
  have m: "''w1'' \<notin> set object_prototype_members"
    by (simp add: object_prototype_members_def)
  have b: "quizData (started [''w1'']) = Some (sample_response [''w1''])"
    "currentQuestionIndex (started [''w1'']) = 0"
    "int (length (questions (sample_response [''w1'']))) = 1"
    by (simp_all add: sample_defs handler_defs)
  have v: "in_question_view (started [''w1'', ''w2''])"
    by (simp add: sample_defs handler_defs screen_def currentQuestion_def at_index_def
          in_question_view_def)
  have o: "click_option 1 (started [''w1'', ''w2''])
      = handleAnswerSelect ''w1'' ''long'' (started [''w1'', ''w2''])"
    using v a(5) by (simp add: click_option_def sample_question_def)
  have c: "in_question_view (click_option 1 (started [''w1'', ''w2'']))"
    "currentQuestionIndex (click_option 1 (started [''w1'', ''w2''])) = 0"
    "questions_length (click_option 1 (started [''w1'', ''w2''])) = 2"
    "currentQuestion (click_option 1 (started [''w1'', ''w2'']))  = Some (sample_question ''w1'')"
    "selectedAnswers (click_option 1 (started [''w1'', ''w2''])) ''w1'' = Some ''long''"
    unfolding o
    by (simp_all add: sample_defs handler_defs screen_def currentQuestion_def at_index_def
          in_question_view_def)
  note t1 = next_question_steps [of "started [''w1'', ''w2'']" "sample_response [''w1'', ''w2'']"
        "started [''w1'', ''w2'']" "sample_question ''w1''"]
  note t2 = next_question_steps [of "started [''w1'']" "sample_response [''w1'']" "started [''w1'']"]
  note t3 = next_question_steps [of "started [''w1'', ''w2'']" "sample_response [''w1'', ''w2'']"
        "click_option 1 (started [''w1'', ''w2''])" "sample_question ''w1''"]
  have w1: "click_next (started [''w1'', ''w2'']) = started [''w1'', ''w2'']"
    using t1 v a m by simp
  have w2: "handleNextQuestion (started [''w1'', ''w2'']) (started [''w1'', ''w2''])
      = (started [''w1'', ''w2''])\<lparr>currentQuestionIndex := currentQuestionIndex (started [''w1'', ''w2'']) + 1\<rparr>"
    using t1 a by simp
  have w3: "handleNextQuestion (started [''w1'']) (started [''w1'']) = finished [''w1'']"
    using t2 b by (simp add: finished_def)
  have w4: "click_next (click_option 1 (started [''w1'', ''w2'']))
      = (click_option 1 (started [''w1'', ''w2'']))
          \<lparr>currentQuestionIndex := currentQuestionIndex (click_option 1 (started [''w1'', ''w2''])) + 1\<rparr>"
    using t3 c a(7) by simp
  have w5: "currentQuestionIndex (click_next (started [''w1'', ''w2''])) = 0"
    unfolding w1 by (rule a(2))
  have w6: "currentQuestionIndex (click_next (click_option 1 (started [''w1'', ''w2'']))) = 1"
    unfolding w4 using c(2) by simp
  have w7: "currentQuestionIndex
     (handleNextQuestion (started [''w1'', ''w2'']) (started [''w1'', ''w2''])) = 1"
    unfolding w2 using a(2) by simp
  show ?thesis
    using a(1) v a(2,3,5,6) m w5 c(5) w6 w7 w3 by blast
qed

text \<open>
  The claim as it was stated fails on the first of two questions with no answer recorded:
  the Next button is disabled, and the click leaves the state as it is.
\<close>

theorem next_button_counterexample:
  "in_question_view (started [''w1'', ''w2'']) \<and>
   currentQuestionIndex (started [''w1'', ''w2'']) = 0 \<and>
   questions_length (started [''w1'', ''w2'']) = 2 \<and>
   selectedAnswers (started [''w1'', ''w2'']) ''w1'' = None \<and>
   click_next (started [''w1'', ''w2'']) = started [''w1'', ''w2'']"
  by (simp add: sample_defs handler_defs view_defs)

subsection \<open>Finishing more than once\<close>




subsection \<open>Reset\<close>




subsection \<open>Marking words for review\<close>

text \<open>
  Claim C4, as amended. \<open>markWordsForReview\<close> sends exactly one status update, with
  the status \<open>reviewing\<close>, for every entry of the result with \<open>correct = false\<close>, whether
  requests fail or not. With no such entry it sends nothing and reports success. When
  all requests succeed it reports their number; when at least one fails it reports the
  one fixed failure, which says neither how many requests failed nor which words.
\<close>

theorem mark_for_review_requests:
  "putRequests (markWordsForReview put_ok r s)
     = putRequests s @
       map (\<lambda>e. (r_wordId e, ''reviewing'')) (filter (\<lambda>e. \<not> correct e) (quizResults r)) \<and>
   (filter (\<lambda>e. \<not> correct e) (quizResults r) = [] \<longrightarrow>
      markWordsForReview put_ok r s
        = s\<lparr>toasts := toasts s @ [ToastSuccess ''No words to mark for review!'']\<rparr>) \<and>
   (filter (\<lambda>e. \<not> correct e) (quizResults r) \<noteq> [] \<and>
    (\<exists>i < length (filter (\<lambda>e. \<not> correct e) (quizResults r)). \<not> put_ok i) \<longrightarrow>
      toasts (markWordsForReview put_ok r s)
        = toasts s @ [ToastError ''Failed to mark words for review''] \<and>
      invalidated (markWordsForReview put_ok r s) = invalidated s) \<and>
   (filter (\<lambda>e. \<not> correct e) (quizResults r) \<noteq> [] \<and>
    (\<forall>i < length (filter (\<lambda>e. \<not> correct e) (quizResults r)). put_ok i) \<longrightarrow>
      toasts (markWordsForReview put_ok r s)
        = toasts s @ [ToastSuccess (show_nat (length (filter (\<lambda>e. \<not> correct e) (quizResults r)))
                                      @ '' words marked for review!'')] \<and>
      invalidated (markWordsForReview put_ok r s)
        = invalidated s @ [''vocabulary'', ''vocabularyStats''])"
  by (auto simp: markWordsForReview_def Let_def list_all_iff comp_def)

theorem mark_for_review_requests_witness:
  "filter (\<lambda>e. \<not> correct e) (quizResults (finished [''w1'', ''w2''])) \<noteq> [] \<and>
   \<not> first_fails 0 \<and>
   putRequests (markWordsForReview first_fails (finished [''w1'', ''w2'']) (finished [''w1'', ''w2'']))
     = [(''w1'', ''reviewing''), (''w2'', ''reviewing'')] \<and>
   toasts (markWordsForReview first_fails (finished [''w1'', ''w2'']) (finished [''w1'', ''w2'']))
     = [ToastError ''Failed to mark words for review''] \<and>
   toasts (markWordsForReview all_succeed (finished [''w1'', ''w2'']) (finished [''w1'', ''w2'']))
     = [ToastSuccess ''2 words marked for review!''] \<and>
   filter (\<lambda>e. \<not> correct e) (quizResults all_correct) = [] \<and>
   markWordsForReview first_fails all_correct all_correct
     = all_correct\<lparr>toasts := [ToastSuccess ''No words to mark for review!'']\<rparr>"
proof -
  have r: "quizResults (finished [''w1'', ''w2''])
      = [result_of Map.empty (sample_question ''w1''), result_of Map.empty (sample_question ''w2'')]"
    by (simp add: sample_defs handler_defs)
  have f: "filter (\<lambda>e. \<not> correct e) (quizResults (finished [''w1'', ''w2'']))
      = [result_of Map.empty (sample_question ''w1''), result_of Map.empty (sample_question ''w2'')]"
    unfolding r
    by (simp add: result_of_def sample_question_def object_get_def object_prototype_members_def)
  have l: "putRequests (finished [''w1'', ''w2'']) = []" "toasts (finished [''w1'', ''w2'']) = []"
    by (simp_all add: sample_defs handler_defs)
  have p: "\<not> first_fails 0"
    by (simp add: first_fails_def)
  have ex: "\<exists>i < length (filter (\<lambda>e. \<not> correct e) (quizResults (finished [''w1'', ''w2'']))). \<not> first_fails i"
    unfolding f using p by auto
  have al: "\<forall>i < length (filter (\<lambda>e. \<not> correct e) (quizResults (finished [''w1'', ''w2'']))). all_succeed i"
    by (simp add: all_succeed_def)
  have n: "show_nat (length (filter (\<lambda>e. \<not> correct e) (quizResults (finished [''w1'', ''w2''])))) = ''2''"
    unfolding f by (simp add: digit_def)
  have c: "filter (\<lambda>e. \<not> correct e) (quizResults all_correct) = []" "toasts all_correct = []"
    by (simp_all add: sample_defs handler_defs result_of_def object_get_def)
  note t1 = mark_for_review_requests [of first_fails "finished [''w1'', ''w2'']" "finished [''w1'', ''w2'']"]
  note t2 = mark_for_review_requests [of all_succeed "finished [''w1'', ''w2'']" "finished [''w1'', ''w2'']"]
  note t3 = mark_for_review_requests [of first_fails all_correct all_correct]
  have w1: "putRequests (markWordsForReview first_fails (finished [''w1'', ''w2'']) (finished [''w1'', ''w2'']))
     = [(''w1'', ''reviewing''), (''w2'', ''reviewing'')]"
    using t1 l unfolding f by (simp add: result_of_def sample_question_def)
  have w2: "toasts (markWordsForReview first_fails (finished [''w1'', ''w2'']) (finished [''w1'', ''w2'']))
     = [ToastError ''Failed to mark words for review'']"
    using t1 ex l(2) unfolding f by simp
  have w3: "toasts (markWordsForReview all_succeed (finished [''w1'', ''w2'']) (finished [''w1'', ''w2'']))
     = [ToastSuccess ''2 words marked for review!'']"
    using t2 al l(2) n unfolding f by simp
  have w4: "markWordsForReview first_fails all_correct all_correct
     = all_correct\<lparr>toasts := [ToastSuccess ''No words to mark for review!'']\<rparr>"
    using t3 c by simp
  have w0: "filter (\<lambda>e. \<not> correct e) (quizResults (finished [''w1'', ''w2''])) \<noteq> []"
    unfolding f by simp
  show ?thesis
    using w0 p w1 w2 w3 c(1) w4 by blast
qed

text \<open>
  The claim as it was stated fails on two wrong entries: whether the first request fails
  and the second succeeds or both fail, both requests are sent and the report is the
  same.
\<close>

theorem mark_partial_failure_counterexample:
  "\<not> first_fails 0 \<and> first_fails 1 \<and> \<not> all_fail 0 \<and> \<not> all_fail 1 \<and>
   putRequests (markWordsForReview first_fails (finished [''w1'', ''w2'']) (finished [''w1'', ''w2'']))
     = [(''w1'', ''reviewing''), (''w2'', ''reviewing'')] \<and>
   toasts (markWordsForReview first_fails (finished [''w1'', ''w2'']) (finished [''w1'', ''w2'']))
     = [ToastError ''Failed to mark words for review''] \<and>
   toasts (markWordsForReview all_fail (finished [''w1'', ''w2'']) (finished [''w1'', ''w2'']))
     = [ToastError ''Failed to mark words for review'']"
  by (simp add: markWordsForReview_def sample_defs handler_defs result_of_def object_get_def
        object_prototype_members_def upt_rec [of 0])

end
